theory Spec2Isabelle
  imports Main "HOL-Library.AList"
begin

section \<open>Python values and errors\<close>

text \<open>
  The values that travel through the code as \<open>Any\<close>: metadata values and the arguments of
  tool calls (parsed JSON). A dict is an association list in insertion order; its keys are
  strings. Floats do not occur in the model.
\<close>

datatype pyval =
    PNone
  | PBool bool
  | PInt int
  | PStr string
  | PList "pyval list"
  | PDict "(string \<times> pyval) list"

datatype pytype = NoneType | BoolType | IntType | StrType | ListType | DictType

fun type_of :: "pyval \<Rightarrow> pytype" where
  "type_of PNone = NoneType"
| "type_of (PBool b) = BoolType"
| "type_of (PInt i) = IntType"
| "type_of (PStr s) = StrType"
| "type_of (PList xs) = ListType"
| "type_of (PDict d) = DictType"

text \<open>
  Every \<open>raise\<close> of the source and every exception a Python operation of the source can
  throw is a value. \<open>Collaborator\<close> is a failure of the language model, the embedder or the
  graph store.
\<close>

datatype error =
    ValueError string
  | KeyError string
  | TypeError
  | AttributeError
  | Exception string
  | Collaborator string
  | IndexError

section \<open>embedchain/memory/utils.py\<close>

text \<open>\<open>not d\<close> for an optional dict: \<open>None\<close> and the empty dict are falsy.\<close>

definition falsy :: "(string \<times> pyval) list option \<Rightarrow> bool" where
  "falsy d = (case d of None \<Rightarrow> True | Some kvs \<Rightarrow> kvs = [])"

text \<open>The value stored for an optional dict: \<open>None\<close> or the dict.\<close>

definition opt_val :: "(string \<times> pyval) list option \<Rightarrow> pyval" where
  "opt_val r = (case r of None \<Rightarrow> PNone | Some d \<Rightarrow> PDict d)"

definition different_type_msg :: "string \<Rightarrow> string" where
  "different_type_msg k =
     ''additional_kwargs['' @ [CHR 0x22] @ k @ [CHR 0x22] @
     ''] already exists in this message, but with a different type.''"

definition already_exists_msg :: "string \<Rightarrow> string" where
  "already_exists_msg k = ''Additional kwargs key '' @ k @ '' already exists in this message.''"

text \<open>
  \<open>merge_metadata_dict\<close> with its loop over \<open>right.items()\<close>: \<open>merge_loop merged items\<close> is
  the loop with \<open>merged\<close> the copy of \<open>left\<close> built so far and \<open>items\<close> the items of \<open>right\<close>
  still to come. \<open>AList.update\<close> overwrites the value of a key in place and appends a new
  key at the end, as assignment to a dict entry does.
\<close>

function merge_metadata_dict ::
    "(string \<times> pyval) list option \<Rightarrow> (string \<times> pyval) list option
      \<Rightarrow> error + (string \<times> pyval) list option"
  and merge_loop ::
    "(string \<times> pyval) list \<Rightarrow> (string \<times> pyval) list \<Rightarrow> error + (string \<times> pyval) list"
where
  "merge_metadata_dict left right =
     (if falsy left \<and> falsy right then Inr None
      else if falsy left then Inr right
      else if falsy right then Inr left
      else (case merge_loop (the left) (the right) of
              Inl e \<Rightarrow> Inl e
            | Inr merged \<Rightarrow> Inr (Some merged)))"
| "merge_loop merged [] = Inr merged"
| "merge_loop merged ((k, v) # rest) =
     (case map_of merged k of
        None \<Rightarrow> merge_loop (AList.update k v merged) rest
      | Some mv \<Rightarrow>
          if type_of mv \<noteq> type_of v then Inl (ValueError (different_type_msg k))
          else (case (mv, v) of
              (PStr a, PStr b) \<Rightarrow> merge_loop (AList.update k (PStr (a @ b)) merged) rest
            | (PDict a, PDict b) \<Rightarrow>
                (case merge_metadata_dict (Some a) (Some b) of
                   Inl e \<Rightarrow> Inl e
                 | Inr r \<Rightarrow> merge_loop (AList.update k (opt_val r) merged) rest)
            | _ \<Rightarrow> Inl (ValueError (already_exists_msg k))))"
  by pat_completeness auto
termination
  by (relation "measure (\<lambda>x. case x of
          Inl (l, r) \<Rightarrow> Suc (size_option (size_list (size_prod (\<lambda>_. 0) size)) r)
        | Inr (m, items) \<Rightarrow> size_list (size_prod (\<lambda>_. 0) size) items)")
     (auto simp: falsy_def split: option.splits)




section \<open>mem0/memory/main_graph.py: strings\<close>

text \<open>
  A string stands for the Python string of which it is the UTF-8 encoding. Three things
  are the interpreter's and are taken as they come: the order in which a set lists its
  elements (\<open>set_order xs\<close> is the list that \<open>list(set(xs))\<close> gives), \<open>str.lower()\<close> on a
  text that has characters beyond ASCII, and \<open>str(v)\<close> of a value that is not a string.
\<close>

record python =
  set_order :: "pyval list \<Rightarrow> pyval list"
  unicode_lower :: "string \<Rightarrow> string"
  str_of :: "pyval \<Rightarrow> string"

text \<open>
  \<open>s.lower().replace(" ", "_")\<close>, the normalisation of every name and label. On an ASCII
  text \<open>lower\<close> changes the letters \<open>A\<close> to \<open>Z\<close>. The byte of a space stands for a space
  wherever it occurs in an encoding.
\<close>

definition ascii :: "string \<Rightarrow> bool" where
  "ascii s = list_all (\<lambda>c. (of_char c :: nat) < 128) s"

definition ascii_lower :: "char \<Rightarrow> char" where
  "ascii_lower c =
     (if 65 \<le> (of_char c :: nat) \<and> (of_char c :: nat) \<le> 90
      then (case c of Char b0 b1 b2 b3 b4 b5 b6 b7 \<Rightarrow> Char b0 b1 b2 b3 b4 True b6 b7)
      else c)"

definition lower :: "python \<Rightarrow> string \<Rightarrow> string" where
  "lower py s = (if ascii s then map ascii_lower s else unicode_lower py s)"

definition replace_space :: "string \<Rightarrow> string" where
  "replace_space s = map (\<lambda>c. if c = CHR '' '' then CHR ''_'' else c) s"

definition normalize :: "python \<Rightarrow> string \<Rightarrow> string" where
  "normalize py s = replace_space (lower py s)"

text \<open>\<open>f"{v}"\<close>: a string as it is, any other value as \<open>str\<close> gives it.\<close>

definition py_format :: "python \<Rightarrow> pyval \<Rightarrow> string" where
  "py_format py v = (case v of PStr s \<Rightarrow> s | _ \<Rightarrow> str_of py v)"

text \<open>
  The characters of a string: in the encoding, a byte that is no continuation byte
  together with the continuation bytes that follow it.
\<close>

definition continuation :: "char \<Rightarrow> bool" where
  "continuation c = (128 \<le> (of_char c :: nat) \<and> (of_char c :: nat) < 192)"

function characters :: "string \<Rightarrow> string list" where
  "characters [] = []"
| "characters (c # cs) = (c # takeWhile continuation cs) # characters (dropWhile continuation cs)"
  by pat_completeness auto
termination
  by (relation "measure length") (auto simp: less_Suc_eq_le length_dropWhile_le)

text \<open>\<open>query.split(" ")\<close>: split at every single space, empty pieces kept.\<close>

fun split_space :: "string \<Rightarrow> string list" where
  "split_space [] = [[]]"
| "split_space (c # cs) =
     (if c = CHR '' '' then [] # split_space cs
      else (case split_space cs of
              [] \<Rightarrow> [[c]]
            | t # ts \<Rightarrow> (c # t) # ts))"

text \<open>\<open>d[k]\<close>: a missing key is a \<open>KeyError\<close>, a value that is no dict a \<open>TypeError\<close>.\<close>

fun py_getitem :: "pyval \<Rightarrow> string \<Rightarrow> error + pyval" where
  "py_getitem (PDict d) k = (case map_of d k of None \<Rightarrow> Inl (KeyError k) | Some v \<Rightarrow> Inr v)"
| "py_getitem _ k = Inl TypeError"

text \<open>The receiver of \<open>.lower()\<close>: only a string has the method.\<close>

fun as_str :: "pyval \<Rightarrow> error + string" where
  "as_str (PStr s) = Inr s"
| "as_str _ = Inl AttributeError"

definition normalized_field :: "python \<Rightarrow> pyval \<Rightarrow> string \<Rightarrow> error + string" where
  "normalized_field py item k =
     (case py_getitem item k of
        Inl e \<Rightarrow> Inl e
      | Inr v \<Rightarrow> (case as_str v of Inl e \<Rightarrow> Inl e | Inr s \<Rightarrow> Inr (normalize py s)))"

text \<open>
  The elements \<open>list.extend\<close> takes from its argument: those of a list, the characters of
  a string, the keys of a dict; anything else is not iterable.
\<close>

fun py_iter :: "pyval \<Rightarrow> error + pyval list" where
  "py_iter (PList xs) = Inr xs"
| "py_iter (PStr s) = Inr (map PStr (characters s))"
| "py_iter (PDict d) = Inr (map (\<lambda>kv. PStr (fst kv)) d)"
| "py_iter _ = Inl TypeError"

fun hashable :: "pyval \<Rightarrow> bool" where
  "hashable (PList xs) = False"
| "hashable (PDict d) = False"
| "hashable _ = True"

text \<open>
  \<open>list(set(xs))\<close>. Building the set fails on an unhashable element; the set is listed in
  the interpreter's order.
\<close>

definition list_set :: "python \<Rightarrow> pyval list \<Rightarrow> error + pyval list" where
  "list_set py xs = (if list_all hashable xs then Inr (set_order py xs) else Inl TypeError)"

fun normalize_all :: "python \<Rightarrow> pyval list \<Rightarrow> error + string list" where
  "normalize_all py [] = Inr []"
| "normalize_all py (x # xs) =
     (case as_str x of
        Inl e \<Rightarrow> Inl e
      | Inr s \<Rightarrow> (case normalize_all py xs of
                   Inl e \<Rightarrow> Inl e
                 | Inr ys \<Rightarrow> Inr (normalize py s # ys)))"

section \<open>mem0/memory/main_graph.py: collaborators\<close>

text \<open>A tool call of a language-model response: \<open>{"name": ..., "arguments": ...}\<close>.\<close>

datatype tool_call = ToolCall (name: string) (arguments: pyval)

text \<open>
  A result row of the graph store. \<open>SearchRow\<close> has the columns of the similarity query
  (source, source_id, relation, relation_id, destination, destination_id; the similarity
  column, a float, is left out), the two names being whatever values the nodes have as
  their \<open>name\<close>; \<open>CreatedRow\<close> has the identities of the two nodes and of the relationship
  that \<open>RETURN n1, r, n2\<close> gives.
\<close>

datatype row =
    SearchRow pyval nat string nat pyval nat
  | CreatedRow nat nat nat

fun row_source :: "row \<Rightarrow> error + pyval" where
  "row_source (SearchRow s si r ri d di) = Inr s"
| "row_source (CreatedRow n1 r n2) = Inl (KeyError ''source'')"

fun row_relation :: "row \<Rightarrow> error + pyval" where
  "row_relation (SearchRow s si r ri d di) = Inr (PStr r)"
| "row_relation (CreatedRow n1 r n2) = Inl (KeyError ''relation'')"

fun row_destination :: "row \<Rightarrow> error + pyval" where
  "row_destination (SearchRow s si r ri d di) = Inr d"
| "row_destination (CreatedRow n1 r n2) = Inl (KeyError ''destination'')"

text \<open>
  The queries the code sends, each constructor one query text with its parameters:
  \<^item> \<open>SimilarityQuery n_embedding\<close>: the similarity query of \<open>_search\<close> (its threshold
    parameter is the constant \<open>self.threshold\<close>);
  \<^item> \<open>MergeTriple source_type destination_type relation source_name dest_name
    source_embedding dest_embedding\<close>: the query of \<open>add\<close>, the first three spliced into
    the text;
  \<^item> \<open>CheckAndCreate source target\<close>, \<open>DeleteQuery source target\<close> and
    \<open>CreateQuery relationship source target\<close>: the three queries of
    \<open>_update_relationship\<close>, the relationship spliced into the text.
  The type \<open>'e\<close> is the type of embeddings.
\<close>

datatype 'e cypher =
    SimilarityQuery 'e
  | MergeTriple string string string string string 'e 'e
  | CheckAndCreate pyval pyval
  | DeleteQuery pyval pyval
  | CreateQuery string pyval pyval

text \<open>
  The three requests to the language model, each determined by what the code puts into
  its prompt: the search request (user id as the f-string prints it, query), the
  extraction request (user id, custom prompt if there is one, data) and the update request
  (search output, extracted entities).
\<close>

datatype llm_request =
    SearchRequest "string option" string
  | ExtractRequest string "string option" string
  | UpdateRequest "row list" pyval

datatype log_msg =
    LogUpdating pyval pyval pyval
  | LogExtracted pyval
  | LogAdded nat
  | LogNodeList "string list"
  | LogReturned nat

text \<open>
  A \<open>MemoryGraph\<close>: its collaborators (\<open>self.llm.generate_response\<close>,
  \<open>self.embedding_model.embed\<close>, \<open>self.graph.query\<close> over a store state \<open>'g\<close>), the custom
  prompt of its configuration and \<open>self.user_id\<close>.
\<close>

record ('e, 'g) memory_graph =
  generate_response :: "llm_request \<Rightarrow> error + tool_call list"
  embed :: "string \<Rightarrow> error + 'e"
  graph_query :: "'e cypher \<Rightarrow> 'g \<Rightarrow> (error + row list) \<times> 'g"
  custom_prompt :: "string option"
  user_id :: "string option"

text \<open>What the code changes: the state of the graph store and the log.\<close>

record 'g world =
  db :: 'g
  log :: "log_msg list"

definition run_query ::
    "('e, 'g) memory_graph \<Rightarrow> 'e cypher \<Rightarrow> 'g world \<Rightarrow> (error + row list) \<times> 'g world" where
  "run_query mg c w = (case graph_query mg c (db w) of (r, g) \<Rightarrow> (r, w\<lparr>db := g\<rparr>))"

section \<open>mem0/memory/main_graph.py: \<open>_update_relationship\<close>\<close>

definition failed_update_msg :: "string \<Rightarrow> string \<Rightarrow> string" where
  "failed_update_msg source target =
     ''Failed to update or create relationship between '' @ source @ '' and '' @ target"

text \<open>
  \<open>_update_relationship\<close>. The two names go into the log, the queries and the message as
  they are; the relationship has to be a string, for its \<open>.lower()\<close>.
\<close>

definition update_relationship ::
    "python \<Rightarrow> ('e, 'g) memory_graph \<Rightarrow> pyval \<Rightarrow> pyval \<Rightarrow> pyval \<Rightarrow> 'g world
      \<Rightarrow> (error + unit) \<times> 'g world"
where
  "update_relationship py mg source target relationship w =
     (let w0 = w\<lparr>log := log w @ [LogUpdating source relationship target]\<rparr> in
      case as_str relationship of
        Inl e \<Rightarrow> (Inl e, w0)
      | Inr rel \<Rightarrow>
     (case run_query mg (CheckAndCreate source target) w0 of
        (Inl e, w1) \<Rightarrow> (Inl e, w1)
      | (Inr _, w1) \<Rightarrow>
     (case run_query mg (DeleteQuery source target) w1 of
        (Inl e, w2) \<Rightarrow> (Inl e, w2)
      | (Inr _, w2) \<Rightarrow>
     (case run_query mg (CreateQuery (normalize py rel) source target) w2 of
        (Inl e, w3) \<Rightarrow> (Inl e, w3)
      | (Inr result, w3) \<Rightarrow>
          if result = [] then
            (Inl (Exception (failed_update_msg (py_format py source) (py_format py target))), w3)
          else (Inr (), w3)))))"

section \<open>mem0/memory/main_graph.py: \<open>_search\<close> and \<open>search\<close>\<close>

fun collect_search :: "tool_call list \<Rightarrow> pyval list \<Rightarrow> pyval list \<Rightarrow> error + pyval list \<times> pyval list" where
  "collect_search [] node_list relation_list = Inr (node_list, relation_list)"
| "collect_search (item # rest) node_list relation_list =
     (if name item = ''search'' then
        (case py_getitem (arguments item) ''nodes'' of
           Inl e \<Rightarrow> Inl e
         | Inr ns \<Rightarrow>
        (case py_iter ns of
           Inl e \<Rightarrow> Inl e
         | Inr new_nodes \<Rightarrow>
        (case py_getitem (arguments item) ''relations'' of
           Inl e \<Rightarrow> Inl e
         | Inr rs \<Rightarrow>
        (case py_iter rs of
           Inl e \<Rightarrow> Inl e
         | Inr new_relations \<Rightarrow>
             collect_search rest (node_list @ new_nodes) (relation_list @ new_relations)))))
      else collect_search rest node_list relation_list)"

text \<open>
  Lines 130 to 142: the node list and the relation list of a response, first made sets,
  then normalised.
\<close>

definition search_lists ::
    "python \<Rightarrow> tool_call list \<Rightarrow> error + string list \<times> string list" where
  "search_lists py search_results =
     (case collect_search search_results [] [] of
        Inl e \<Rightarrow> Inl e
      | Inr (node_list, relation_list) \<Rightarrow>
     (case list_set py node_list of
        Inl e \<Rightarrow> Inl e
      | Inr node_set \<Rightarrow>
     (case list_set py relation_list of
        Inl e \<Rightarrow> Inl e
      | Inr relation_set \<Rightarrow>
     (case normalize_all py node_set of
        Inl e \<Rightarrow> Inl e
      | Inr nodes' \<Rightarrow>
     (case normalize_all py relation_set of
        Inl e \<Rightarrow> Inl e
      | Inr relations' \<Rightarrow> Inr (nodes', relations'))))))"

fun search_nodes ::
    "('e, 'g) memory_graph \<Rightarrow> string list \<Rightarrow> row list \<Rightarrow> 'g world \<Rightarrow> (error + row list) \<times> 'g world"
where
  "search_nodes mg [] result_relations w = (Inr result_relations, w)"
| "search_nodes mg (node # rest) result_relations w =
     (case embed mg node of
        Inl e \<Rightarrow> (Inl e, w)
      | Inr n_embedding \<Rightarrow>
     (case run_query mg (SimilarityQuery n_embedding) w of
        (Inl e, w1) \<Rightarrow> (Inl e, w1)
      | (Inr ans, w1) \<Rightarrow> search_nodes mg rest (result_relations @ ans) w1))"

definition search_internal ::
    "python \<Rightarrow> ('e, 'g) memory_graph \<Rightarrow> string \<Rightarrow> 'g world
      \<Rightarrow> (error + row list) \<times> 'g world" where
  "search_internal py mg query w =
     (case generate_response mg (SearchRequest (user_id mg) query) of
        Inl e \<Rightarrow> (Inl e, w)
      | Inr search_results \<Rightarrow>
     (case search_lists py search_results of
        Inl e \<Rightarrow> (Inl e, w)
      | Inr (node_list, relation_list) \<Rightarrow>
          search_nodes mg node_list [] (w\<lparr>log := log w @ [LogNodeList node_list]\<rparr>)))"

text \<open>
  The reranker (the package rank_bm25, no part of the repository). A document is a list of
  tokens. \<open>BM25Okapi(corpus)\<close> counts the tokens of every document in a dict, so that a
  token that is not hashable is a \<open>TypeError\<close>. \<open>rank corpus query\<close> stands for the indices
  of the corpus in the order of falling score, \<open>np.argsort(scores)[::-1]\<close>; \<open>get_top_n\<close>
  takes the documents at the first \<open>n\<close> of them.
\<close>

definition bm25_okapi :: "pyval list list \<Rightarrow> error + pyval list list" where
  "bm25_okapi corpus = (if list_all (list_all hashable) corpus then Inr corpus else Inl TypeError)"

fun documents_at :: "pyval list list \<Rightarrow> nat list \<Rightarrow> error + pyval list list" where
  "documents_at documents [] = Inr []"
| "documents_at documents (i # is) =
     (if i < length documents then
        (case documents_at documents is of
           Inl e \<Rightarrow> Inl e
         | Inr ds \<Rightarrow> Inr (documents ! i # ds))
      else Inl IndexError)"

definition get_top_n ::
    "(pyval list list \<Rightarrow> string list \<Rightarrow> nat list) \<Rightarrow> pyval list list \<Rightarrow> string list
      \<Rightarrow> pyval list list \<Rightarrow> nat \<Rightarrow> error + pyval list list" where
  "get_top_n rank corpus query documents n = documents_at documents (take n (rank corpus query))"

fun search_outputs_sequence :: "row list \<Rightarrow> error + pyval list list" where
  "search_outputs_sequence [] = Inr []"
| "search_outputs_sequence (item # rest) =
     (case row_source item of
        Inl e \<Rightarrow> Inl e
      | Inr s \<Rightarrow>
     (case row_relation item of
        Inl e \<Rightarrow> Inl e
      | Inr r \<Rightarrow>
     (case row_destination item of
        Inl e \<Rightarrow> Inl e
      | Inr d \<Rightarrow>
     (case search_outputs_sequence rest of
        Inl e \<Rightarrow> Inl e
      | Inr docs \<Rightarrow> Inr ([s, r, d] # docs)))))"

text \<open>The result dict of one reranked document: \<open>item[0]\<close>, \<open>item[1]\<close>, \<open>item[2]\<close>.\<close>

fun result_dict :: "pyval list \<Rightarrow> error + (string \<times> pyval) list" where
  "result_dict (s # r # d # _) = Inr [(''source'', s), (''relation'', r), (''destination'', d)]"
| "result_dict _ = Inl IndexError"

fun result_dicts :: "pyval list list \<Rightarrow> error + (string \<times> pyval) list list" where
  "result_dicts [] = Inr []"
| "result_dicts (item # rest) =
     (case result_dict item of
        Inl e \<Rightarrow> Inl e
      | Inr x \<Rightarrow> (case result_dicts rest of Inl e \<Rightarrow> Inl e | Inr xs \<Rightarrow> Inr (x # xs)))"

definition search ::
    "python \<Rightarrow> (pyval list list \<Rightarrow> string list \<Rightarrow> nat list)
      \<Rightarrow> ('e, 'g) memory_graph \<Rightarrow> string \<Rightarrow> 'g world
      \<Rightarrow> (error + (string \<times> pyval) list list) \<times> 'g world" where
  "search py rank mg query w =
     (case search_internal py mg query w of
        (Inl e, w1) \<Rightarrow> (Inl e, w1)
      | (Inr search_output, w1) \<Rightarrow>
          if search_output = [] then (Inr [], w1)
          else
     (case search_outputs_sequence search_output of
        Inl e \<Rightarrow> (Inl e, w1)
      | Inr docs \<Rightarrow>
     (case bm25_okapi docs of
        Inl e \<Rightarrow> (Inl e, w1)
      | Inr corpus \<Rightarrow>
     (case get_top_n rank corpus (split_space query) docs 5 of
        Inl e \<Rightarrow> (Inl e, w1)
      | Inr reranked_results \<Rightarrow>
     (case result_dicts reranked_results of
        Inl e \<Rightarrow> (Inl e, w1)
      | Inr search_results \<Rightarrow>
          (Inr search_results,
           w1\<lparr>log := log w1 @ [LogReturned (length search_results)]\<rparr>))))))"

text \<open>
  The \<open>{source, relation, destination}\<close> mapping of a row of the similarity search, in
  the words of the specification.
\<close>

fun triple_of :: "row \<Rightarrow> (string \<times> pyval) list" where
  "triple_of (SearchRow s si r ri d di) =
     [(''source'', s), (''relation'', PStr r), (''destination'', d)]"
| "triple_of (CreatedRow n1 r n2) = []"

section \<open>mem0/memory/main_graph.py: \<open>add\<close>\<close>

text \<open>The arguments of an \<open>update_graph_memory\<close> call, read in the order of the source.\<close>

definition update_arguments :: "pyval \<Rightarrow> error + pyval \<times> pyval \<times> pyval" where
  "update_arguments args =
     (case py_getitem args ''source'' of
        Inl e \<Rightarrow> Inl e
      | Inr s \<Rightarrow>
     (case py_getitem args ''destination'' of
        Inl e \<Rightarrow> Inl e
      | Inr d \<Rightarrow>
     (case py_getitem args ''relationship'' of
        Inl e \<Rightarrow> Inl e
      | Inr r \<Rightarrow> Inr (s, d, r))))"

text \<open>The body of the loop over \<open>memory_updates['tool_calls']\<close> (lines 77 to 83).\<close>

definition handle_tool_call ::
    "python \<Rightarrow> ('e, 'g) memory_graph \<Rightarrow> tool_call \<Rightarrow> pyval list \<Rightarrow> 'g world
      \<Rightarrow> (error + pyval list) \<times> 'g world"
where
  "handle_tool_call py mg item to_be_added w =
     (if name item = ''add_graph_memory'' then (Inr (to_be_added @ [arguments item]), w)
      else if name item = ''update_graph_memory'' then
        (case update_arguments (arguments item) of
           Inl e \<Rightarrow> (Inl e, w)
         | Inr (source, destination, relationship) \<Rightarrow>
             (case update_relationship py mg source destination relationship w of
                (Inl e, w1) \<Rightarrow> (Inl e, w1)
              | (Inr _, w1) \<Rightarrow> (Inr to_be_added, w1)))
      else if name item = ''noop'' then (Inr to_be_added, w)
      else (Inr to_be_added, w))"

fun tool_call_loop ::
    "python \<Rightarrow> ('e, 'g) memory_graph \<Rightarrow> tool_call list \<Rightarrow> pyval list \<Rightarrow> 'g world
      \<Rightarrow> (error + pyval list) \<times> 'g world"
where
  "tool_call_loop py mg [] to_be_added w = (Inr to_be_added, w)"
| "tool_call_loop py mg (item # rest) to_be_added w =
     (case handle_tool_call py mg item to_be_added w of
        (Inl e, w1) \<Rightarrow> (Inl e, w1)
      | (Inr to_be_added1, w1) \<Rightarrow> tool_call_loop py mg rest to_be_added1 w1)"

text \<open>The loop over \<open>to_be_added\<close> (lines 85 to 116).\<close>

fun insert_loop ::
    "python \<Rightarrow> ('e, 'g) memory_graph \<Rightarrow> pyval list \<Rightarrow> 'g world \<Rightarrow> (error + unit) \<times> 'g world"
where
  "insert_loop py mg [] w = (Inr (), w)"
| "insert_loop py mg (item # rest) w =
     (case normalized_field py item ''source'' of
        Inl e \<Rightarrow> (Inl e, w)
      | Inr source \<Rightarrow>
     (case normalized_field py item ''source_type'' of
        Inl e \<Rightarrow> (Inl e, w)
      | Inr source_type \<Rightarrow>
     (case normalized_field py item ''relationship'' of
        Inl e \<Rightarrow> (Inl e, w)
      | Inr relation \<Rightarrow>
     (case normalized_field py item ''destination'' of
        Inl e \<Rightarrow> (Inl e, w)
      | Inr destination \<Rightarrow>
     (case normalized_field py item ''destination_type'' of
        Inl e \<Rightarrow> (Inl e, w)
      | Inr destination_type \<Rightarrow>
     (case embed mg source of
        Inl e \<Rightarrow> (Inl e, w)
      | Inr source_embedding \<Rightarrow>
     (case embed mg destination of
        Inl e \<Rightarrow> (Inl e, w)
      | Inr dest_embedding \<Rightarrow>
     (case run_query mg (MergeTriple source_type destination_type relation source destination
                           source_embedding dest_embedding) w of
        (Inl e, w1) \<Rightarrow> (Inl e, w1)
      | (Inr _, w1) \<Rightarrow> insert_loop py mg rest w1))))))))"

text \<open>
  The entities of the extraction response: the \<open>entities\<close> argument of its first tool
  call, the empty list when there is no tool call.
\<close>

definition extracted_entities :: "tool_call list \<Rightarrow> error + pyval" where
  "extracted_entities tool_calls =
     (case tool_calls of
        [] \<Rightarrow> Inr (PList [])
      | first # _ \<Rightarrow> py_getitem (arguments first) ''entities'')"

text \<open>
  \<open>add\<close>. Replacing \<open>USER_ID\<close> in the prompt by \<open>self.user_id\<close> is a \<open>TypeError\<close> while the
  user id is \<open>None\<close>; an empty custom prompt counts as none. The prompt texts themselves
  (\<open>EXTRACT_ENTITIES_PROMPT\<close> and \<open>get_update_memory_messages\<close> of mem0/graphs/utils, which
  is not among the sources) are taken to be built without a failure. The function has no
  \<open>return\<close> statement: the value of a call that completes is \<open>None\<close>.
\<close>

definition add ::
    "python \<Rightarrow> ('e, 'g) memory_graph \<Rightarrow> string \<Rightarrow> 'g world
      \<Rightarrow> (error + pyval) \<times> 'g world" where
  "add py mg data w =
     (case search_internal py mg data w of
        (Inl e, w1) \<Rightarrow> (Inl e, w1)
      | (Inr search_output, w1) \<Rightarrow>
     (case user_id mg of
        None \<Rightarrow> (Inl TypeError, w1)
      | Some uid \<Rightarrow>
     (case generate_response mg
             (ExtractRequest uid (if custom_prompt mg = Some [] then None else custom_prompt mg) data) of
        Inl e \<Rightarrow> (Inl e, w1)
      | Inr response \<Rightarrow>
     (case extracted_entities response of
        Inl e \<Rightarrow> (Inl e, w1)
      | Inr entities \<Rightarrow>
     (let w2 = w1\<lparr>log := log w1 @ [LogExtracted entities]\<rparr> in
      case generate_response mg (UpdateRequest search_output entities) of
        Inl e \<Rightarrow> (Inl e, w2)
      | Inr memory_updates \<Rightarrow>
     (case tool_call_loop py mg memory_updates [] w2 of
        (Inl e, w3) \<Rightarrow> (Inl e, w3)
      | (Inr to_be_added, w3) \<Rightarrow>
     (case insert_loop py mg to_be_added w3 of
        (Inl e, w4) \<Rightarrow> (Inl e, w4)
      | (Inr _, w4) \<Rightarrow>
          (Inr PNone, w4\<lparr>log := log w4 @ [LogAdded (length to_be_added)]\<rparr>))))))))"


section \<open>The graph store\<close>

text \<open>
  A reference semantics of the store for the queries above, after the Cypher manual. A
  node has an identity, labels, the property \<open>name\<close> and, once the add path has written it,
  the property \<open>embedding\<close>; a relationship has an identity, its two end nodes and its
  type. The \<open>created\<close> timestamps are left out. Every query is one transaction: a query
  that fails leaves the store as it was.
\<close>

record 'e node =
  node_id :: nat
  node_labels :: "string list"
  node_name :: pyval
  node_embedding :: "'e option"

record edge =
  edge_id :: nat
  edge_src :: nat
  edge_type :: string
  edge_dst :: nat

record 'e store =
  nodes :: "'e node list"
  edges :: "edge list"
  next_id :: nat

text \<open>
  A label or relationship type spliced into a query text has to be an identifier: a
  letter or underscore, then letters, digits and underscores. For any other text the
  reference semantics reports a syntax error; what the real parser makes of such a text is
  not modelled.
\<close>

definition is_letter :: "char \<Rightarrow> bool" where
  "is_letter c = ((65 \<le> (of_char c :: nat) \<and> (of_char c :: nat) \<le> 90)
                 \<or> (97 \<le> (of_char c :: nat) \<and> (of_char c :: nat) \<le> 122))"

definition is_digit :: "char \<Rightarrow> bool" where
  "is_digit c = (48 \<le> (of_char c :: nat) \<and> (of_char c :: nat) \<le> 57)"

definition is_identifier :: "string \<Rightarrow> bool" where
  "is_identifier s =
     (case s of
        [] \<Rightarrow> False
      | c # cs \<Rightarrow> (is_letter c \<or> c = CHR ''_'')
                 \<and> list_all (\<lambda>x. is_letter x \<or> is_digit x \<or> x = CHR ''_'') cs)"

text \<open>
  The values of query parameters. The driver sends integers of 64 bits only, also inside
  lists and maps. A property holds a string, an integer, a boolean or a list of values of
  one of these types; it holds neither null nor a map nor any other list.
\<close>

fun sendable :: "pyval \<Rightarrow> bool" where
  "sendable (PInt i) = (- (2 ^ 63) \<le> i \<and> i < 2 ^ 63)"
| "sendable (PList xs) = list_all sendable xs"
| "sendable (PDict d) = list_all sendable (map snd d)"
| "sendable _ = True"

fun primitive :: "pyval \<Rightarrow> bool" where
  "primitive (PStr s) = True"
| "primitive (PInt i) = True"
| "primitive (PBool b) = True"
| "primitive _ = False"

definition storable :: "pyval \<Rightarrow> bool" where
  "storable v =
     (primitive v
      \<or> (case v of
            PList xs \<Rightarrow> list_all primitive xs
                        \<and> list_all (\<lambda>x. list_all (\<lambda>y. type_of x = type_of y) xs) xs
          | _ \<Rightarrow> False))"

text \<open>The nodes matched by \<open>(n {name: $s})\<close> and by \<open>(n:l {name: $s})\<close>.\<close>

definition named :: "'e store \<Rightarrow> pyval \<Rightarrow> 'e node list" where
  "named g s = filter (\<lambda>n. node_name n = s) (nodes g)"

definition labelled :: "'e store \<Rightarrow> string \<Rightarrow> string \<Rightarrow> 'e node list" where
  "labelled g l s = filter (\<lambda>n. l \<in> set (node_labels n) \<and> node_name n = PStr s) (nodes g)"

text \<open>\<open>MERGE (n {name: $s})\<close>: a bare node is created when no node has the name.\<close>

definition merge_named :: "pyval \<Rightarrow> 'e store \<Rightarrow> 'e store" where
  "merge_named s g =
     (if named g s = [] then
        g\<lparr>nodes := nodes g @ [\<lparr>node_id = next_id g, node_labels = [], node_name = s,
                               node_embedding = None\<rparr>],
          next_id := Suc (next_id g)\<rparr>
      else g)"

text \<open>
  \<open>MERGE (n:l {name: $s}) ON CREATE SET n.embedding = $e ON MATCH SET n.embedding = $e\<close>.
\<close>

definition merge_labelled :: "string \<Rightarrow> string \<Rightarrow> 'e \<Rightarrow> 'e store \<Rightarrow> 'e store" where
  "merge_labelled l s e g =
     (if labelled g l s = [] then
        g\<lparr>nodes := nodes g @ [\<lparr>node_id = next_id g, node_labels = [l], node_name = PStr s,
                               node_embedding = Some e\<rparr>],
          next_id := Suc (next_id g)\<rparr>
      else
        g\<lparr>nodes := map (\<lambda>n. if l \<in> set (node_labels n) \<and> node_name n = PStr s
                              then n\<lparr>node_embedding := Some e\<rparr> else n) (nodes g)\<rparr>)"

text \<open>The relationships from a node named \<open>s\<close> to a node named \<open>t\<close>.\<close>

definition connects :: "'e store \<Rightarrow> pyval \<Rightarrow> pyval \<Rightarrow> edge \<Rightarrow> bool" where
  "connects g s t e =
     (edge_src e \<in> set (map node_id (named g s)) \<and> edge_dst e \<in> set (map node_id (named g t)))"

definition edges_named :: "'e store \<Rightarrow> pyval \<Rightarrow> pyval \<Rightarrow> edge list" where
  "edges_named g s t = filter (connects g s t) (edges g)"

text \<open>The relationships from the node \<open>a\<close> to the node \<open>b\<close>.\<close>

definition edges_between :: "'e store \<Rightarrow> nat \<Rightarrow> nat \<Rightarrow> edge list" where
  "edges_between g a b = filter (\<lambda>e. edge_src e = a \<and> edge_dst e = b) (edges g)"

text \<open>\<open>CREATE (n1)-[r:rel]->(n2)\<close> for each of the matched pairs, with fresh identities.\<close>

definition new_edges :: "string \<Rightarrow> (nat \<times> nat) list \<Rightarrow> nat \<Rightarrow> edge list" where
  "new_edges rel pairs i =
     map (\<lambda>(p, j). \<lparr>edge_id = j, edge_src = fst p, edge_type = rel, edge_dst = snd p\<rparr>)
       (zip pairs [i ..< i + length pairs])"

definition created_row :: "edge \<Rightarrow> row" where
  "created_row e = CreatedRow (edge_src e) (edge_id e) (edge_dst e)"

text \<open>
  \<open>MERGE (n)-[rel:r]->(m)\<close> for each of the matched pairs: the relationships of that type
  between the two nodes if there are any, a new one otherwise.
\<close>

fun merge_edges :: "string \<Rightarrow> (nat \<times> nat) list \<Rightarrow> 'e store \<Rightarrow> row list \<times> 'e store" where
  "merge_edges rel [] g = ([], g)"
| "merge_edges rel (p # ps) g =
     (let existing = filter (\<lambda>e. edge_type e = rel) (edges_between g (fst p) (snd p)) in
      if existing = [] then
        (let e = \<lparr>edge_id = next_id g, edge_src = fst p, edge_type = rel, edge_dst = snd p\<rparr>;
             (rows, g') = merge_edges rel ps (g\<lparr>edges := edges g @ [e], next_id := Suc (next_id g)\<rparr>)
         in (created_row e # rows, g'))
      else
        (let (rows, g') = merge_edges rel ps g
         in (map created_row existing @ rows, g')))"

definition syntax_error :: error where
  "syntax_error = Collaborator ''CypherSyntaxError''"

definition driver_error :: error where
  "driver_error = Collaborator ''Integer out of bounds''"

definition property_error :: error where
  "property_error = Collaborator ''CypherTypeError''"

text \<open>
  The store. The similarity query reads only; which rows it gives is decided by floating
  point arithmetic inside the store and is the parameter \<open>sim\<close>. A name that the driver
  cannot send fails every query. A name that no property can hold fails \<open>MERGE\<close>, which
  would have to create the node, and is matched by no node in \<open>MATCH\<close>.
\<close>

fun neo4j :: "('e \<Rightarrow> 'e store \<Rightarrow> row list) \<Rightarrow> 'e cypher \<Rightarrow> 'e store \<Rightarrow> (error + row list) \<times> 'e store" where
  "neo4j sim (SimilarityQuery e) g = (Inr (sim e g), g)"
| "neo4j sim (MergeTriple source_type destination_type relation source_name dest_name
               source_embedding dest_embedding) g =
     (if is_identifier source_type \<and> is_identifier destination_type \<and> is_identifier relation then
        (let g1 = merge_labelled source_type source_name source_embedding g;
             g2 = merge_labelled destination_type dest_name dest_embedding g1;
             pairs = List.product (map node_id (labelled g2 source_type source_name))
                                  (map node_id (labelled g2 destination_type dest_name));
             (rows, g3) = merge_edges relation pairs g2
         in (Inr rows, g3))
      else (Inl syntax_error, g))"
| "neo4j sim (CheckAndCreate source target) g =
     (if \<not> (sendable source \<and> sendable target) then (Inl driver_error, g)
      else if \<not> (storable source \<and> storable target) then (Inl property_error, g)
      else (Inr [], merge_named target (merge_named source g)))"
| "neo4j sim (DeleteQuery source target) g =
     (if \<not> (sendable source \<and> sendable target) then (Inl driver_error, g)
      else if \<not> (storable source \<and> storable target) then (Inr [], g)
      else (Inr [], g\<lparr>edges := filter (\<lambda>e. \<not> connects g source target e) (edges g)\<rparr>))"
| "neo4j sim (CreateQuery relationship source target) g =
     (if \<not> (sendable source \<and> sendable target) then (Inl driver_error, g)
      else if \<not> is_identifier relationship then (Inl syntax_error, g)
      else if \<not> (storable source \<and> storable target) then (Inr [], g)
      else
        (let pairs = List.product (map node_id (named g source)) (map node_id (named g target));
             es = new_edges relationship pairs (next_id g)
         in (Inr (map created_row es),
             g\<lparr>edges := edges g @ es, next_id := next_id g + length pairs\<rparr>)))"

text \<open>
  The store after the three queries of a relationship replacement from \<open>s\<close> to \<open>t\<close> with
  the type \<open>rel\<close>, put together from the three equations of \<open>neo4j\<close>.
\<close>

definition replaced :: "pyval \<Rightarrow> pyval \<Rightarrow> string \<Rightarrow> 'e store \<Rightarrow> 'e store" where
  "replaced s t rel g =
     (let g1 = merge_named t (merge_named s g);
          ps = List.product (map node_id (named g1 s)) (map node_id (named g1 t))
      in g1\<lparr>edges := filter (\<lambda>e. \<not> connects g1 s t e) (edges g1) @ new_edges rel ps (next_id g1),
            next_id := next_id g1 + length ps\<rparr>)"

definition empty_store :: "'e store" where
  "empty_store = \<lparr>nodes = [], edges = [], next_id = 0\<rparr>"

definition wf_store :: "'e store \<Rightarrow> bool" where
  "wf_store g = (distinct (map node_id (nodes g)) \<and> list_all (\<lambda>n. node_id n < next_id g) (nodes g))"

section \<open>Examples\<close>

text \<open>
  An interpreter for the examples, whose sets list their elements in the order of
  \<open>remdups\<close>. The examples have ASCII texts and strings as names only, so that its other two
  fields are never asked.
\<close>

definition interpreter :: python where
  "interpreter = \<lparr>set_order = remdups, unicode_lower = (\<lambda>s. s), str_of = (\<lambda>v. [])\<rparr>"

text \<open>
  A language model that answers the search request with \<open>s\<close>, the extraction request with
  \<open>e\<close> and the update request with \<open>u\<close>; a memory graph over the reference store with that
  model, whose embedder gives the length of the text and whose similarity query finds
  nothing; a memory graph over a store that answers every query with no rows.
\<close>

definition scripted ::
    "tool_call list \<Rightarrow> tool_call list \<Rightarrow> tool_call list \<Rightarrow> llm_request \<Rightarrow> error + tool_call list"
where
  "scripted s e u request =
     (case request of
        SearchRequest uid query \<Rightarrow> Inr s
      | ExtractRequest uid prompt data \<Rightarrow> Inr e
      | UpdateRequest search_output entities \<Rightarrow> Inr u)"

definition graph_with :: "(llm_request \<Rightarrow> error + tool_call list) \<Rightarrow> (nat, nat store) memory_graph" where
  "graph_with l = \<lparr>generate_response = l, embed = (\<lambda>s. Inr (length s)),
                  graph_query = neo4j (\<lambda>e g. []), custom_prompt = None, user_id = Some ''alice''\<rparr>"

definition mute :: "(nat, nat store) memory_graph" where
  "mute = \<lparr>generate_response = (\<lambda>r. Inr []), embed = (\<lambda>s. Inr (length s)),
           graph_query = (\<lambda>c g. (Inr [], g)), custom_prompt = None, user_id = Some ''alice''\<rparr>"

definition start :: "nat store world" where
  "start = \<lparr>db = empty_store, log = []\<rparr>"

definition alice_lives_in_paris :: pyval where
  "alice_lives_in_paris =
     PDict [(''source'', PStr ''Alice''), (''source_type'', PStr ''Person''),
            (''relationship'', PStr ''Lives In''),
            (''destination'', PStr ''Paris''), (''destination_type'', PStr ''City'')]"

text \<open>
  A similarity query for which every embedded node is similar: it gives a row for every
  relationship of the store. A memory graph over the reference store with that query; a
  store in which Bob and Alice live in Paris; a language model that finds the node
  \<open>Alice\<close> in a query; a reranker that ranks the documents from the last to the first.
\<close>

definition every_edge :: "'e \<Rightarrow> 'e store \<Rightarrow> row list" where
  "every_edge e g =
     concat (map (\<lambda>r. [SearchRow (node_name n) (node_id n) (edge_type r) (edge_id r)
                          (node_name m) (node_id m).
                        n \<leftarrow> nodes g, node_id n = edge_src r, m \<leftarrow> nodes g, node_id m = edge_dst r])
               (edges g))"

definition finder :: "(llm_request \<Rightarrow> error + tool_call list) \<Rightarrow> (nat, nat store) memory_graph" where
  "finder l = (graph_with l)\<lparr>graph_query := neo4j every_edge\<rparr>"

definition paris :: "nat store world" where
  "paris =
     \<lparr>db = \<lparr>nodes = [\<lparr>node_id = 0, node_labels = [''person''], node_name = PStr ''bob'',
                        node_embedding = Some 3\<rparr>,
                      \<lparr>node_id = 1, node_labels = [''city''], node_name = PStr ''paris'',
                        node_embedding = Some 5\<rparr>,
                      \<lparr>node_id = 3, node_labels = [''person''], node_name = PStr ''alice'',
                        node_embedding = Some 5\<rparr>],
             edges = [\<lparr>edge_id = 2, edge_src = 0, edge_type = ''lives_in'', edge_dst = 1\<rparr>,
                      \<lparr>edge_id = 4, edge_src = 3, edge_type = ''lives_in'', edge_dst = 1\<rparr>],
             next_id = 5\<rparr>,
      log = []\<rparr>"

definition ask_alice :: "llm_request \<Rightarrow> error + tool_call list" where
  "ask_alice = scripted [ToolCall ''search'' (PDict [(''nodes'', PList [PStr ''Alice'']),
                                                    (''relations'', PList [PStr ''lives in''])])]
                 [] []"

definition reversed :: "pyval list list \<Rightarrow> string list \<Rightarrow> nat list" where
  "reversed corpus query = rev [0 ..< length corpus]"

text \<open>
  A second candidate triple for Alice, as a user; the store after both triples for Alice
  have been added; two relationship replacements from \<open>alice\<close> to \<open>paris\<close>, one after the
  other; an update call whose source is the number five.
\<close>

definition alice_the_user :: pyval where
  "alice_the_user =
     PDict [(''source'', PStr ''Alice''), (''source_type'', PStr ''User''),
            (''relationship'', PStr ''Lives In''),
            (''destination'', PStr ''Paris''), (''destination_type'', PStr ''City'')]"

definition two_alices :: "nat store world" where
  "two_alices =
     snd (add interpreter
            (graph_with (scripted [] [] [ToolCall ''add_graph_memory'' alice_lives_in_paris,
                                         ToolCall ''add_graph_memory'' alice_the_user]))
            ''Alice lives in Paris'' start)"

definition twice :: "string \<Rightarrow> string \<Rightarrow> nat store world \<Rightarrow> (error + unit) \<times> nat store world" where
  "twice r1 r2 w =
     update_relationship interpreter (graph_with (scripted [] [] []))
       (PStr ''alice'') (PStr ''paris'') (PStr r2)
       (snd (update_relationship interpreter (graph_with (scripted [] [] []))
               (PStr ''alice'') (PStr ''paris'') (PStr r1) w))"

definition five_likes_paris :: tool_call where
  "five_likes_paris =
     ToolCall ''update_graph_memory''
       (PDict [(''source'', PInt 5), (''destination'', PStr ''paris''),
               (''relationship'', PStr ''likes'')])"

section \<open>Properties of the metadata merge\<close>

declare merge_metadata_dict.simps [simp del]





text \<open>
  Claim C10. When both arguments are \<open>None\<close> or empty the result is \<open>None\<close>, not an empty
  dict; when exactly one argument is \<open>None\<close> or empty the other argument is returned as it
  is.
\<close>

theorem merge_metadata_dict_falsy:
  "(falsy left \<and> falsy right \<longrightarrow> merge_metadata_dict left right = Inr None)
   \<and> (falsy left \<and> \<not> falsy right \<longrightarrow> merge_metadata_dict left right = Inr right)
   \<and> (\<not> falsy left \<and> falsy right \<longrightarrow> merge_metadata_dict left right = Inr left)"
  by (simp add: merge_metadata_dict.simps)

theorem merge_metadata_dict_falsy_witness:
  "falsy (Some []) \<and> falsy None \<and> \<not> falsy (Some [(''a'', PInt 1)])
   \<and> merge_metadata_dict (Some []) None = Inr None
   \<and> merge_metadata_dict None (Some [(''a'', PInt 1)]) = Inr (Some [(''a'', PInt 1)])
   \<and> merge_metadata_dict (Some [(''a'', PInt 1)]) (Some []) = Inr (Some [(''a'', PInt 1)])"
  using merge_metadata_dict_falsy [of "Some []" None]
    merge_metadata_dict_falsy [of None "Some [(''a'', PInt 1)]"]
    merge_metadata_dict_falsy [of "Some [(''a'', PInt 1)]" "Some []"]
  by (simp add: falsy_def)



section \<open>Properties of the graph memory\<close>

text \<open>
  Claim C5. Once the first two queries of the relationship replacement have gone through:
  if the creation query returns no rows, the operation raises the exception whose message
  is \<open>Failed to update or create relationship between\<close>, the source, \<open>and\<close>, the target;
  if the creation query returns rows, the operation completes without an error.
\<close>

theorem update_relationship_result:
  assumes "run_query mg (CheckAndCreate source target)
             (w\<lparr>log := log w @ [LogUpdating source (PStr rel) target]\<rparr>) = (Inr r1, w1)"
    and "run_query mg (DeleteQuery source target) w1 = (Inr r2, w2)"
    and "run_query mg (CreateQuery (normalize py rel) source target) w2 = (Inr result, w3)"
  shows "update_relationship py mg source target (PStr rel) w =
           (if result = [] then
              (Inl (Exception (''Failed to update or create relationship between ''
                                @ py_format py source @ '' and '' @ py_format py target)), w3)
            else (Inr (), w3))"
  using assms by (simp add: update_relationship_def failed_update_msg_def Let_def)

theorem update_relationship_result_witness:
  "update_relationship interpreter mute (PStr ''alice'') (PStr ''paris'') (PStr ''likes'') start =
     (Inl (Exception ''Failed to update or create relationship between alice and paris''),
      start\<lparr>log := [LogUpdating (PStr ''alice'') (PStr ''likes'') (PStr ''paris'')]\<rparr>)
   \<and> fst (update_relationship interpreter (graph_with (scripted [] [] []))
            (PStr ''alice'') (PStr ''paris'') (PStr ''likes'') start) = Inr ()"
proof -
  let ?a = "PStr ''alice''" and ?p = "PStr ''paris''"
  let ?mg = "graph_with (scripted [] [] [])"
  let ?w0 = "start\<lparr>log := log start @ [LogUpdating ?a (PStr ''likes'') ?p]\<rparr>"
  have a: "run_query mute (CheckAndCreate ?a ?p) ?w0 = (Inr [], ?w0)"
    and b: "run_query mute (DeleteQuery ?a ?p) ?w0 = (Inr [], ?w0)"
    and c: "run_query mute (CreateQuery (normalize interpreter ''likes'') ?a ?p) ?w0 = (Inr [], ?w0)"
    by (simp_all add: run_query_def mute_def)
  let ?w1 = "snd (run_query ?mg (CheckAndCreate ?a ?p) ?w0)"
  let ?w2 = "snd (run_query ?mg (DeleteQuery ?a ?p) ?w1)"
  let ?w3 = "snd (run_query ?mg (CreateQuery (normalize interpreter ''likes'') ?a ?p) ?w2)"
  have a': "run_query ?mg (CheckAndCreate ?a ?p) ?w0 = (Inr [], ?w1)"
    by code_simp
  have b': "run_query ?mg (DeleteQuery ?a ?p) ?w1 = (Inr [], ?w2)"
    by code_simp
  have c': "run_query ?mg (CreateQuery (normalize interpreter ''likes'') ?a ?p) ?w2
       = (Inr [CreatedRow 0 2 1], ?w3)"
    by code_simp
  show ?thesis
    using update_relationship_result [OF a b c] update_relationship_result [OF a' b' c']
    by (simp add: start_def py_format_def)
qed

text \<open>
  Claim C9. A tool call named \<open>noop\<close> leaves the store, the log and the queue of triples
  to add as they are and raises no error, whatever its arguments; the loop goes on with
  the next tool call.
\<close>

theorem noop_no_mutation:
  "handle_tool_call py mg (ToolCall ''noop'' args) to_be_added w = (Inr to_be_added, w)
   \<and> tool_call_loop py mg (ToolCall ''noop'' args # rest) to_be_added w
       = tool_call_loop py mg rest to_be_added w"
  by (simp add: handle_tool_call_def)

text \<open>
  Claim C8, as the code has it. A tool call whose name is none of \<open>add_graph_memory\<close>,
  \<open>update_graph_memory\<close> and \<open>noop\<close> matches no branch of the loop: it is passed over
  without an error and without any change, and the loop goes on.
\<close>

theorem unknown_tool_call_ignored:
  assumes "name item \<noteq> ''add_graph_memory''" and "name item \<noteq> ''update_graph_memory''"
    and "name item \<noteq> ''noop''"
  shows "handle_tool_call py mg item to_be_added w = (Inr to_be_added, w)
         \<and> tool_call_loop py mg (item # rest) to_be_added w
             = tool_call_loop py mg rest to_be_added w"
  using assms by (simp add: handle_tool_call_def)

theorem unknown_tool_call_ignored_witness:
  "name (ToolCall ''delete_graph_memory'' (PDict [])) \<noteq> ''add_graph_memory''
   \<and> handle_tool_call interpreter mute (ToolCall ''delete_graph_memory'' (PDict [])) [] start
       = (Inr [], start)"
  using unknown_tool_call_ignored
    [of "ToolCall ''delete_graph_memory'' (PDict [])" interpreter mute "[]" start "[]"]
  by simp

text \<open>
  Claim C8 as it is written fails: with a response whose only tool call is named
  \<open>delete_graph_memory\<close>, \<open>add\<close> completes, adds nothing and reports no error.
\<close>

theorem unknown_tool_call_counterexample:
  "add interpreter (graph_with (scripted [] [] [ToolCall ''delete_graph_memory'' (PDict [])]))
     ''Forget Paris'' start
   = (Inr PNone, start\<lparr>log := [LogNodeList [], LogExtracted (PList []), LogAdded 0]\<rparr>)"
  by code_simp

lemma tool_call_loop_added:
  "tool_call_loop py mg items to_be_added w = (Inr result, w') \<Longrightarrow>
     result = to_be_added @ map arguments (filter (\<lambda>i. name i = ''add_graph_memory'') items)"
proof (induction items arbitrary: to_be_added w)
  case Nil
  then show ?case by simp
next
  case (Cons item rest)
  show ?case
  proof (cases "handle_tool_call py mg item to_be_added w")
    case (Pair r w1)
    show ?thesis
    proof (cases r)
      case (Inl e)
      with Pair Cons.prems show ?thesis by simp
    next
      case (Inr tba)
      with Pair Cons.prems have "tool_call_loop py mg rest tba w1 = (Inr result, w')" by simp
      from Cons.IH[OF this] Pair Inr show ?thesis
        by (auto simp: handle_tool_call_def split: if_splits sum.splits prod.splits)
    qed
  qed
qed

text \<open>
  Claim C2. The code does not return the number of inserted triples: a call of \<open>add\<close> that
  completes returns \<open>None\<close>. What it has of the number is the last entry of its log, the
  number of \<open>add_graph_memory\<close> calls in the response to the update request that this
  call has sent, with the rows of its own search and the entities of its own extraction;
  calls named \<open>update_graph_memory\<close> or \<open>noop\<close> do not count.
\<close>

theorem add_returns_none:
  assumes "add py mg data w = (Inr v, w')"
  shows "v = PNone \<and>
         (\<exists>search_output w1 uid response entities memory_updates.
            search_internal py mg data w = (Inr search_output, w1)
            \<and> user_id mg = Some uid
            \<and> generate_response mg
                  (ExtractRequest uid
                     (if custom_prompt mg = Some [] then None else custom_prompt mg) data)
                = Inr response
            \<and> extracted_entities response = Inr entities
            \<and> generate_response mg (UpdateRequest search_output entities) = Inr memory_updates
            \<and> log w' \<noteq> []
            \<and> last (log w') =
                LogAdded (length (filter (\<lambda>i. name i = ''add_graph_memory'') memory_updates)))"
  using assms
  by (auto simp: add_def Let_def dest!: tool_call_loop_added
      split: prod.splits sum.splits option.splits)


theorem add_returns_none_witness:
  "fst (add interpreter (graph_with (scripted [] []
           [ToolCall ''add_graph_memory'' alice_lives_in_paris, ToolCall ''noop'' (PDict [])]))
          ''Alice lives in Paris'' start) = Inr PNone
   \<and> last (log (snd (add interpreter (graph_with (scripted [] []
           [ToolCall ''add_graph_memory'' alice_lives_in_paris, ToolCall ''noop'' (PDict [])]))
          ''Alice lives in Paris'' start))) = LogAdded 1"
proof -
  let ?mg = "graph_with (scripted [] []
           [ToolCall ''add_graph_memory'' alice_lives_in_paris, ToolCall ''noop'' (PDict [])])"
  have h: "add interpreter ?mg ''Alice lives in Paris'' start
             = (Inr PNone, snd (add interpreter ?mg ''Alice lives in Paris'' start))"
    by code_simp
  from add_returns_none [OF h] obtain so en mu
    where g: "generate_response ?mg (UpdateRequest so en) = Inr mu"
      and l: "last (log (snd (add interpreter ?mg ''Alice lives in Paris'' start)))
                = LogAdded (length (filter (\<lambda>i. name i = ''add_graph_memory'') mu))"
    by blast
  from g have "mu = [ToolCall ''add_graph_memory'' alice_lives_in_paris, ToolCall ''noop'' (PDict [])]"
    by (simp add: graph_with_def scripted_def)
  moreover from h have "fst (add interpreter ?mg ''Alice lives in Paris'' start) = Inr PNone"
    by (metis fst_conv)
  ultimately show ?thesis using l by simp
qed

text \<open>
  The failing input of claim C2: \<open>add\<close> inserts one triple as a new edge and returns
  \<open>None\<close>, neither the number one nor the dict of its docstring.
\<close>

theorem add_inserts_one_returns_none:
  "fst (add interpreter
          (graph_with (scripted [] [] [ToolCall ''add_graph_memory'' alice_lives_in_paris]))
          ''Alice lives in Paris'' start) = Inr PNone
   \<and> edges (db (snd (add interpreter
          (graph_with (scripted [] [] [ToolCall ''add_graph_memory'' alice_lives_in_paris]))
          ''Alice lives in Paris'' start)))
      = [\<lparr>edge_id = 2, edge_src = 0, edge_type = ''lives_in'', edge_dst = 1\<rparr>]"
  by code_simp

text \<open>
  An \<open>update_graph_memory\<close> call whose source is a number goes the way of any other: the
  replacement is logged and its three queries run.
\<close>

lemma update_with_a_number:
  "handle_tool_call interpreter (graph_with (scripted [] [] [])) five_likes_paris [] start =
     (Inr [],
      \<lparr>db = \<lparr>nodes = [\<lparr>node_id = 0, node_labels = [], node_name = PInt 5,
                         node_embedding = None\<rparr>,
                       \<lparr>node_id = 1, node_labels = [], node_name = PStr ''paris'',
                         node_embedding = None\<rparr>],
              edges = [\<lparr>edge_id = 2, edge_src = 0, edge_type = ''likes'', edge_dst = 1\<rparr>],
              next_id = 3\<rparr>,
       log = [LogUpdating (PInt 5) (PStr ''likes'') (PStr ''paris'')]\<rparr>)"
  by code_simp

lemma two_element_lists:
  assumes "distinct ys" and "set ys = {a, b}" and "a \<noteq> b"
  shows "ys = [a, b] \<or> ys = [b, a]"
proof -
  have "length ys = 2" using assms distinct_card[of ys] by simp
  then obtain x y where ys: "ys = [x, y]"
    by (cases ys; cases "tl ys") auto
  with assms show ?thesis by auto
qed

lemma normalize_New_York: "normalize py ''New York'' = ''new_york''"
  by (simp add: normalize_def lower_def ascii_def ascii_lower_def replace_space_def)

lemma normalize_new_york: "normalize py ''new_york'' = ''new_york''"
  by (simp add: normalize_def lower_def ascii_def ascii_lower_def replace_space_def)

text \<open>
  Claim C6. The code makes the lists sets before it normalises them. For the names
  \<open>New York\<close> and \<open>new_york\<close>, in whatever order the interpreter lists the set, the node
  list handed to the similarity search holds \<open>new_york\<close> twice.
\<close>

theorem duplicates_after_normalization:
  assumes "\<And>xs. distinct (set_order py xs) \<and> set (set_order py xs) = set xs"
  shows "search_lists py
           [ToolCall ''search'' (PDict [(''nodes'', PList [PStr ''New York'', PStr ''new_york'']),
                                        (''relations'', PList [])])]
         = Inr ([''new_york'', ''new_york''], [])"
proof -
  have e: "set_order py [] = []" using assms[of "[]"] by simp
  have "set_order py [PStr ''New York'', PStr ''new_york'']
           = [PStr ''New York'', PStr ''new_york'']
        \<or> set_order py [PStr ''New York'', PStr ''new_york'']
           = [PStr ''new_york'', PStr ''New York'']"
    using assms[of "[PStr ''New York'', PStr ''new_york'']"]
    by (intro two_element_lists) auto
  then show ?thesis
    by (auto simp: search_lists_def list_set_def e normalize_New_York normalize_new_york)
qed

theorem duplicates_after_normalization_witness:
  "distinct (set_order interpreter [PStr ''a'', PStr ''a'']) \<and>
   search_lists interpreter
           [ToolCall ''search'' (PDict [(''nodes'', PList [PStr ''New York'', PStr ''new_york'']),
                                        (''relations'', PList [])])]
         = Inr ([''new_york'', ''new_york''], [])"
  using duplicates_after_normalization [of interpreter]
  by (simp add: interpreter_def)

lemma search_outputs_sequence_docs:
  assumes "\<forall>row \<in> set rows. \<exists>s si r ri d di. row = SearchRow s si r ri d di \<and> hashable s \<and> hashable d"
  shows "\<exists>docs. search_outputs_sequence rows = Inr docs
           \<and> length docs = length rows
           \<and> list_all (list_all hashable) docs
           \<and> (\<forall>i < length rows. result_dict (docs ! i) = Inr (triple_of (rows ! i)))"
  using assms
proof (induction rows)
  case Nil
  then show ?case by simp
next
  case (Cons item rest)
  then obtain s si r ri d di where item: "item = SearchRow s si r ri d di"
    and h: "hashable s" "hashable d"
    by auto
  from Cons obtain ds where ds: "search_outputs_sequence rest = Inr ds"
    and len: "length ds = length rest" and hs: "list_all (list_all hashable) ds"
    and rd: "\<forall>i < length rest. result_dict (ds ! i) = Inr (triple_of (rest ! i))"
    by auto
  show ?case
    using ds len hs rd h
    by (auto simp: item nth_Cons split: nat.splits)
qed

lemma documents_at_map:
  "\<forall>i \<in> set is. i < length documents \<Longrightarrow>
     documents_at documents is = Inr (map (\<lambda>i. documents ! i) is)"
  by (induction "is") auto

lemma result_dicts_map:
  "\<forall>i \<in> set is. result_dict (docs ! i) = Inr (f i) \<Longrightarrow>
     result_dicts (map (\<lambda>i. docs ! i) is) = Inr (map f is)"
  by (induction "is") auto

lemma permutation_length:
  "distinct xs \<Longrightarrow> set xs = {..<n} \<Longrightarrow> length xs = n"
  using distinct_card[of xs] by simp

text \<open>
  Claim C7. Given the rows of the similarity search, each with the columns of the
  similarity query and with names that can be counted as tokens, and a reranker whose
  ranking is a permutation of the indices of its corpus, \<open>search\<close> returns without an
  error: the empty list when there are no rows, and otherwise the
  \<open>{source, relation, destination}\<close> mappings of the rows at the first five indices of the
  ranking of their documents, in the order of the ranking. The results are five, or as
  many as there are rows if these are fewer (the source asks for five; it has no \<open>top_n\<close>
  parameter).
\<close>

theorem search_top_five:
  assumes si: "search_internal py mg query w = (Inr search_output, w1)"
    and rows: "\<forall>row \<in> set search_output.
                 \<exists>s si r ri d di. row = SearchRow s si r ri d di \<and> hashable s \<and> hashable d"
    and rank: "\<And>docs. distinct (rank docs (split_space query))
                        \<and> set (rank docs (split_space query)) = {..<length docs}"
  shows "\<exists>docs results.
           search_outputs_sequence search_output = Inr docs
           \<and> search py rank mg query w =
               (Inr results,
                if search_output = [] then w1
                else w1\<lparr>log := log w1 @ [LogReturned (length results)]\<rparr>)
           \<and> length results = min 5 (length search_output)
           \<and> (\<forall>i \<in> set (take 5 (rank docs (split_space query))). i < length search_output)
           \<and> results = map (\<lambda>i. triple_of (search_output ! i))
                          (take 5 (rank docs (split_space query)))"
proof -
  from search_outputs_sequence_docs[OF rows] obtain docs where
    docs: "search_outputs_sequence search_output = Inr docs"
    and len: "length docs = length search_output"
    and hs: "list_all (list_all hashable) docs"
    and rd: "\<forall>i < length search_output. result_dict (docs ! i) = Inr (triple_of (search_output ! i))"
    by blast
  let ?rk = "rank docs (split_space query)"
  let ?is = "take 5 ?rk"
  let ?results = "map (\<lambda>i. triple_of (search_output ! i)) ?is"
  have rl: "length ?rk = length search_output"
    using rank[of docs] len by (simp add: permutation_length)
  have inr: "\<forall>i \<in> set ?is. i < length docs"
    using rank[of docs] by (auto dest: in_set_takeD)
  have top: "get_top_n rank docs (split_space query) docs 5 = Inr (map (\<lambda>i. docs ! i) ?is)"
    unfolding get_top_n_def by (rule documents_at_map[OF inr])
  have res: "result_dicts (map (\<lambda>i. docs ! i) ?is) = Inr ?results"
    using inr rd len by (intro result_dicts_map) auto
  have n: "length ?results = min 5 (length search_output)"
    using rl by (simp add: min.commute)
  have s: "search py rank mg query w =
             (Inr ?results,
              if search_output = [] then w1
              else w1\<lparr>log := log w1 @ [LogReturned (length ?results)]\<rparr>)"
  proof (cases "search_output = []")
    case True
    with rl have "?rk = []" by simp
    with True si show ?thesis by (simp add: search_def)
  next
    case False
    with si docs hs top res show ?thesis
      by (simp add: search_def bm25_okapi_def)
  qed
  from docs s n inr len show ?thesis by (intro exI[of _ docs] exI[of _ ?results]) simp
qed

theorem search_top_five_witness:
  "search interpreter reversed (graph_with (scripted [] [] [])) ''Where does Alice live?'' start
     = (Inr [], start\<lparr>log := [LogNodeList []]\<rparr>)
   \<and> fst (search interpreter reversed (finder ask_alice) ''Where does Alice live?'' paris)
     = Inr [[(''source'', PStr ''alice''), (''relation'', PStr ''lives_in''),
             (''destination'', PStr ''paris'')],
            [(''source'', PStr ''bob''), (''relation'', PStr ''lives_in''),
             (''destination'', PStr ''paris'')]]"
proof -
  let ?q = "''Where does Alice live?''"
  let ?rows = "[SearchRow (PStr ''bob'') 0 ''lives_in'' 2 (PStr ''paris'') 1,
                SearchRow (PStr ''alice'') 3 ''lives_in'' 4 (PStr ''paris'') 1]"
  have rk: "\<And>docs. distinct (reversed docs (split_space ?q))
                     \<and> set (reversed docs (split_space ?q)) = {..<length docs}"
    by (auto simp: reversed_def)
  have e: "search_internal interpreter (graph_with (scripted [] [] [])) ?q start
             = (Inr [], start\<lparr>log := [LogNodeList []]\<rparr>)"
    by code_simp
  have h: "search_internal interpreter (finder ask_alice) ?q paris
             = (Inr ?rows, snd (search_internal interpreter (finder ask_alice) ?q paris))"
    by code_simp
  have r: "\<forall>row \<in> set ?rows.
             \<exists>s si r ri d di. row = SearchRow s si r ri d di \<and> hashable s \<and> hashable d"
    by simp
  have r0: "\<forall>row \<in> set ([] :: row list).
             \<exists>s si r ri d di. row = SearchRow s si r ri d di \<and> hashable s \<and> hashable d"
    by simp
  from search_top_five [where rank = reversed, OF e r0 rk]
  have a: "search interpreter reversed (graph_with (scripted [] [] [])) ?q start
             = (Inr [], start\<lparr>log := [LogNodeList []]\<rparr>)"
    by auto
  from search_top_five [where rank = reversed, OF h r rk] obtain docs results where
    d: "search_outputs_sequence ?rows = Inr docs"
    and s: "fst (search interpreter reversed (finder ask_alice) ?q paris) = Inr results"
    and m: "results = map (\<lambda>i. triple_of (?rows ! i)) (take 5 (reversed docs (split_space ?q)))"
    by auto
  from d have "length docs = 2" by auto
  with m have "results = [triple_of (?rows ! 1), triple_of (?rows ! 0)]"
    by (simp add: reversed_def upt_rec)
  with s a show ?thesis by simp
qed


section \<open>Properties of the relationship replacement\<close>

lemma nodes_merge_named:
  "nodes (merge_named s g) =
     (if named g s = [] then nodes g @ [\<lparr>node_id = next_id g, node_labels = [], node_name = s,
                                          node_embedding = None\<rparr>]
      else nodes g)"
  by (simp add: merge_named_def)

lemma edges_merge_named: "edges (merge_named s g) = edges g"
  by (simp add: merge_named_def)

lemma named_merge_named_same: "named (merge_named s g) s \<noteq> []"
  by (auto simp: merge_named_def named_def)

lemma named_merge_named_mono: "named g u \<noteq> [] \<Longrightarrow> named (merge_named s g) u \<noteq> []"
  by (auto simp: merge_named_def named_def)

lemma length_named_merge_named:
  "length (named g u) \<le> Suc 0 \<Longrightarrow> length (named (merge_named s g) u) \<le> Suc 0"
  by (auto simp: merge_named_def named_def)

lemma wf_merge_named: "wf_store g \<Longrightarrow> wf_store (merge_named s g)"
  by (auto simp: wf_store_def merge_named_def list_all_iff less_Suc_eq)

lemma distinct_named_ids: "wf_store g \<Longrightarrow> distinct (map node_id (named g s))"
  by (simp add: wf_store_def named_def distinct_map_filter)

lemma filter_zip_single:
  "distinct ps \<Longrightarrow> length js = length ps \<Longrightarrow> p \<in> set ps \<Longrightarrow>
     \<exists>j. filter (\<lambda>x. fst x = p) (zip ps js) = [(p, j)]"
proof (induction ps arbitrary: js)
  case Nil
  then show ?case by simp
next
  case (Cons q qs)
  then obtain k ks where js: "js = k # ks" by (cases js) auto
  show ?case
  proof (cases "q = p")
    case True
    with Cons.prems have "p \<notin> set qs" by simp
    then have "filter (\<lambda>x. fst x = p) (zip qs ks) = []"
      by (auto simp: filter_empty_conv dest: set_zip_leftD)
    with True js show ?thesis by simp
  next
    case False
    with Cons.prems js have "\<exists>j. filter (\<lambda>x. fst x = p) (zip qs ks) = [(p, j)]"
      by (intro Cons.IH) auto
    with False js show ?thesis by simp
  qed
qed

lemma new_edges_between:
  assumes "distinct ps" and "(a, b) \<in> set ps"
  shows "\<exists>e. filter (\<lambda>e. edge_src e = a \<and> edge_dst e = b) (new_edges rel ps i) = [e]
              \<and> edge_type e = rel"
proof -
  have len: "length [i ..< i + length ps] = length ps" by simp
  from filter_zip_single[OF assms(1) len assms(2)] obtain j
    where j: "filter (\<lambda>x. fst x = (a, b)) (zip ps [i ..< i + length ps]) = [((a, b), j)]" by blast
  have "filter (\<lambda>e. edge_src e = a \<and> edge_dst e = b) (new_edges rel ps i)
        = map (\<lambda>(p, j). \<lparr>edge_id = j, edge_src = fst p, edge_type = rel, edge_dst = snd p\<rparr>)
            (filter (\<lambda>x. fst x = (a, b)) (zip ps [i ..< i + length ps]))"
    unfolding new_edges_def filter_map
    by (rule arg_cong[where f="map _"], rule filter_cong) (auto simp: prod_eq_iff)
  with j show ?thesis by simp
qed

lemma new_edges_type: "e \<in> set (new_edges rel ps i) \<Longrightarrow> edge_type e = rel"
  by (auto simp: new_edges_def)

lemma new_edges_ends:
  "e \<in> set (new_edges rel ps i) \<Longrightarrow> (edge_src e, edge_dst e) \<in> set ps"
  by (auto simp: new_edges_def dest: set_zip_leftD)

lemma length_new_edges: "length (new_edges rel ps i) = length ps"
  by (simp add: new_edges_def)

lemma named_edges_update [simp]: "named (g\<lparr>edges := es\<rparr>) u = named g u"
  by (simp add: named_def)

lemma named_next_id_update [simp]: "named (g\<lparr>next_id := n\<rparr>) u = named g u"
  by (simp add: named_def)

lemma connects_edges_update [simp]: "connects (g\<lparr>edges := es\<rparr>) s t = connects g s t"
  by (simp add: connects_def fun_eq_iff)

lemma connects_next_id_update [simp]: "connects (g\<lparr>next_id := n\<rparr>) s t = connects g s t"
  by (simp add: connects_def fun_eq_iff)

lemma product_not_Nil: "xs \<noteq> [] \<Longrightarrow> ys \<noteq> [] \<Longrightarrow> List.product xs ys \<noteq> []"
  by (cases xs; cases ys) auto

lemma update_relationship_neo4j:
  assumes "graph_query mg = neo4j sim" and "is_identifier (normalize py rel)"
    and "sendable s" and "sendable t" and "storable s" and "storable t"
  shows "update_relationship py mg s t (PStr rel) w =
           (Inr (), \<lparr>db = replaced s t (normalize py rel) (db w),
                     log = log w @ [LogUpdating s (PStr rel) t]\<rparr>)"
proof -
  let ?g1 = "merge_named t (merge_named s (db w))"
  have "named ?g1 s \<noteq> []" "named ?g1 t \<noteq> []"
    by (simp_all add: named_merge_named_same named_merge_named_mono)
  then have "List.product (map node_id (named ?g1 s)) (map node_id (named ?g1 t)) \<noteq> []"
    by (intro product_not_Nil) auto
  then have ne: "new_edges (normalize py rel)
            (List.product (map node_id (named ?g1 s)) (map node_id (named ?g1 t))) (next_id ?g1) \<noteq> []"
    using length_new_edges[of "normalize py rel"
        "List.product (map node_id (named ?g1 s)) (map node_id (named ?g1 t))" "next_id ?g1"]
    by (metis length_0_conv)
  show ?thesis
    using ne assms
    by (simp add: update_relationship_def run_query_def replaced_def Let_def)
qed

lemma nodes_replaced: "nodes (replaced s t rel g) = nodes (merge_named t (merge_named s g))"
  by (simp add: replaced_def Let_def)

lemma named_replaced: "named (replaced s t rel g) u = named (merge_named t (merge_named s g)) u"
  by (simp add: replaced_def Let_def)

lemma wf_replaced: "wf_store g \<Longrightarrow> wf_store (replaced s t rel g)"
proof -
  assume "wf_store g"
  then have "wf_store (merge_named t (merge_named s g))" by (intro wf_merge_named)
  then show ?thesis
    by (auto simp: wf_store_def replaced_def Let_def list_all_iff)
qed

lemma edges_between_replaced:
  assumes wf: "wf_store g" and a: "a \<in> set (named (replaced s t rel g) s)"
    and b: "b \<in> set (named (replaced s t rel g) t)"
  shows "\<exists>e. edges_between (replaced s t rel g) (node_id a) (node_id b) = [e] \<and> edge_type e = rel"
proof -
  let ?g1 = "merge_named t (merge_named s g)"
  let ?ps = "List.product (map node_id (named ?g1 s)) (map node_id (named ?g1 t))"
  have wf1: "wf_store ?g1" using wf by (intro wf_merge_named)
  from a b have a1: "a \<in> set (named ?g1 s)" and b1: "b \<in> set (named ?g1 t)"
    by (simp_all add: named_replaced)
  have d: "distinct ?ps"
    using wf1 by (intro distinct_product distinct_named_ids)
  have m: "(node_id a, node_id b) \<in> set ?ps" using a1 b1 by auto
  have old: "filter (\<lambda>e. edge_src e = node_id a \<and> edge_dst e = node_id b)
               (filter (\<lambda>e. \<not> connects ?g1 s t e) (edges ?g1)) = []"
    using a1 b1 by (auto simp: filter_empty_conv connects_def)
  from new_edges_between[OF d m, of rel "next_id ?g1"] old show ?thesis
    by (simp add: edges_between_def replaced_def Let_def)
qed

lemma edges_named_replaced:
  "edges_named (replaced s t rel g) s t
     = new_edges rel (List.product (map node_id (named (merge_named t (merge_named s g)) s))
                                   (map node_id (named (merge_named t (merge_named s g)) t)))
         (next_id (merge_named t (merge_named s g)))"
proof -
  let ?g1 = "merge_named t (merge_named s g)"
  let ?ps = "List.product (map node_id (named ?g1 s)) (map node_id (named ?g1 t))"
  have "filter (connects ?g1 s t) (new_edges rel ?ps (next_id ?g1)) = new_edges rel ?ps (next_id ?g1)"
    by (rule filter_True) (auto simp: connects_def dest!: new_edges_ends)
  then show ?thesis
    by (simp add: edges_named_def replaced_def Let_def)
qed

lemma single_edge_replaced:
  assumes "length (named g s) \<le> 1" and "length (named g t) \<le> 1"
  shows "\<exists>e. edges_named (replaced s t rel g) s t = [e] \<and> edge_type e = rel"
proof -
  let ?g1 = "merge_named t (merge_named s g)"
  let ?ps = "List.product (map node_id (named ?g1 s)) (map node_id (named ?g1 t))"
  have "length (named ?g1 s) \<le> 1" "length (named ?g1 t) \<le> 1"
    using assms by (simp_all add: length_named_merge_named)
  moreover have "named ?g1 s \<noteq> []" "named ?g1 t \<noteq> []"
    by (simp_all add: named_merge_named_same named_merge_named_mono)
  ultimately have "length (named ?g1 s) = 1" "length (named ?g1 t) = 1"
    by (simp_all add: le_Suc_eq)
  then have "length (new_edges rel ?ps (next_id ?g1)) = 1"
    by (simp add: length_new_edges)
  then obtain e where e: "new_edges rel ?ps (next_id ?g1) = [e]"
    by (cases "new_edges rel ?ps (next_id ?g1)") auto
  then have "edge_type e = rel" using new_edges_type[of e rel ?ps "next_id ?g1"] by simp
  with e show ?thesis by (simp add: edges_named_replaced)
qed

text \<open>
  Claim C1, as the code has it. On the reference store, two replacements from \<open>A\<close> to \<open>B\<close>
  whose normalised relationships are identifiers both complete. Afterwards there is a node
  named \<open>A\<close> and a node named \<open>B\<close>, and from every node named \<open>A\<close> to every node named \<open>B\<close>
  there is exactly one relationship, of the type of the second replacement after
  normalisation. When at most one node was named \<open>A\<close> and at most one \<open>B\<close> before, that is
  the one relationship from \<open>A\<close> to \<open>B\<close>.
\<close>

theorem replace_twice:
  assumes gq: "graph_query mg = neo4j sim" and wf: "wf_store (db w)"
    and i1: "is_identifier (normalize py r1)" and i2: "is_identifier (normalize py r2)"
  shows "\<exists>w1 w2.
           update_relationship py mg (PStr A) (PStr B) (PStr r1) w = (Inr (), w1)
           \<and> update_relationship py mg (PStr A) (PStr B) (PStr r2) w1 = (Inr (), w2)
           \<and> named (db w2) (PStr A) \<noteq> [] \<and> named (db w2) (PStr B) \<noteq> []
           \<and> (\<forall>a \<in> set (named (db w2) (PStr A)). \<forall>b \<in> set (named (db w2) (PStr B)).
                 \<exists>e. edges_between (db w2) (node_id a) (node_id b) = [e]
                      \<and> edge_type e = normalize py r2)
           \<and> (length (named (db w) (PStr A)) \<le> 1 \<and> length (named (db w) (PStr B)) \<le> 1 \<longrightarrow>
                 (\<exists>e. edges_named (db w2) (PStr A) (PStr B) = [e]
                      \<and> edge_type e = normalize py r2))"
proof -
  let ?A = "PStr A" and ?B = "PStr B"
  let ?g1 = "replaced ?A ?B (normalize py r1) (db w)"
  let ?w1 = "\<lparr>db = ?g1, log = log w @ [LogUpdating ?A (PStr r1) ?B]\<rparr>"
  let ?g2 = "replaced ?A ?B (normalize py r2) ?g1"
  let ?w2 = "\<lparr>db = ?g2, log = log ?w1 @ [LogUpdating ?A (PStr r2) ?B]\<rparr>"
  have sA: "sendable ?A" "storable ?A" and sB: "sendable ?B" "storable ?B"
    by (simp_all add: storable_def)
  have u1: "update_relationship py mg ?A ?B (PStr r1) w = (Inr (), ?w1)"
    by (rule update_relationship_neo4j[OF gq i1 sA(1) sB(1) sA(2) sB(2)])
  have u2: "update_relationship py mg ?A ?B (PStr r2) ?w1 = (Inr (), ?w2)"
    using update_relationship_neo4j[OF gq i2 sA(1) sB(1) sA(2) sB(2), of ?w1] by simp
  have wf1: "wf_store ?g1" using wf by (rule wf_replaced)
  have n: "named ?g2 ?A \<noteq> []" "named ?g2 ?B \<noteq> []"
    by (simp_all add: named_replaced named_merge_named_same named_merge_named_mono)
  have p: "\<forall>a \<in> set (named ?g2 ?A). \<forall>b \<in> set (named ?g2 ?B).
             \<exists>e. edges_between ?g2 (node_id a) (node_id b) = [e] \<and> edge_type e = normalize py r2"
    using edges_between_replaced[OF wf1] by blast
  have q: "length (named (db w) ?A) \<le> 1 \<and> length (named (db w) ?B) \<le> 1 \<longrightarrow>
             (\<exists>e. edges_named ?g2 ?A ?B = [e] \<and> edge_type e = normalize py r2)"
  proof
    assume "length (named (db w) ?A) \<le> 1 \<and> length (named (db w) ?B) \<le> 1"
    then have "length (named ?g1 ?A) \<le> 1" "length (named ?g1 ?B) \<le> 1"
      by (simp_all add: named_replaced length_named_merge_named)
    then show "\<exists>e. edges_named ?g2 ?A ?B = [e] \<and> edge_type e = normalize py r2"
      by (rule single_edge_replaced)
  qed
  from u1 u2 n p q show ?thesis by (intro exI[of _ ?w1] exI[of _ ?w2]) simp
qed

theorem replace_twice_witness:
  "wf_store (db start) \<and> is_identifier (normalize interpreter ''likes'')
   \<and> is_identifier (normalize interpreter ''dislikes'')
   \<and> length (named (db start) (PStr ''alice'')) \<le> 1
   \<and> length (named (db start) (PStr ''paris'')) \<le> 1
   \<and> fst (twice ''likes'' ''dislikes'' start) = Inr ()
   \<and> (\<exists>e. edges_named (db (snd (twice ''likes'' ''dislikes'' start)))
             (PStr ''alice'') (PStr ''paris'') = [e]
          \<and> edge_type e = ''dislikes'')"
proof -
  let ?mg = "graph_with (scripted [] [] [])"
  let ?a = "PStr ''alice''" and ?p = "PStr ''paris''"
  have gq: "graph_query ?mg = neo4j (\<lambda>e g. [])" by (simp add: graph_with_def)
  have wf: "wf_store (db start)" by code_simp
  have i1: "is_identifier (normalize interpreter ''likes'')" by code_simp
  have i2: "is_identifier (normalize interpreter ''dislikes'')" by code_simp
  have l: "length (named (db start) ?a) \<le> 1 \<and> length (named (db start) ?p) \<le> 1"
    by code_simp
  have n: "normalize interpreter ''dislikes'' = ''dislikes''" by code_simp
  from replace_twice [OF gq wf i1 i2, of "''alice''" "''paris''"] l obtain w1 w2 e where
    "update_relationship interpreter ?mg ?a ?p (PStr ''likes'') start = (Inr (), w1)"
    "update_relationship interpreter ?mg ?a ?p (PStr ''dislikes'') w1 = (Inr (), w2)"
    "edges_named (db w2) ?a ?p = [e]" "edge_type e = normalize interpreter ''dislikes''"
    by blast
  then have "fst (twice ''likes'' ''dislikes'' start) = Inr ()
     \<and> edges_named (db (snd (twice ''likes'' ''dislikes'' start))) ?a ?p = [e]
     \<and> edge_type e = ''dislikes''"
    by (simp add: twice_def n)
  with wf i1 i2 l show ?thesis by blast
qed

text \<open>
  Claim C1 as it is written fails. The type of the relationship is the normalised text,
  not the text of the call: after a replacement with \<open>Lives In\<close> the type is \<open>lives_in\<close>.
  Two nodes with the name \<open>alice\<close>, made by the add path under two types, both get a
  relationship to \<open>paris\<close>. A relationship text that is no identifier after normalisation
  makes the creation query fail after the deletion has been done, so that no
  relationship is left.
\<close>

theorem replace_twice_counterexample:
  "map edge_type (edges_named (db (snd (twice ''likes'' ''Lives In'' start)))
                    (PStr ''alice'') (PStr ''paris''))
     = [''lives_in'']
   \<and> map edge_type (edges_named (db (snd (twice ''likes'' ''dislikes'' two_alices)))
                      (PStr ''alice'') (PStr ''paris''))
     = [''dislikes'', ''dislikes'']
   \<and> fst (twice ''likes'' ''is-a'' start) = Inl syntax_error
   \<and> edges_named (db (snd (twice ''likes'' ''is-a'' start))) (PStr ''alice'') (PStr ''paris'') = []"
  by code_simp

end
